theory Spec2Isabelle
  imports Main
begin

section \<open>Strings and the URLSearchParams serializer\<close>

text \<open>
  The loader builds its script URL with the platform class \<open>URLSearchParams\<close>.
  A JavaScript string is modelled by the byte sequence of its UTF-8 encoding (a
  \<open>string\<close>, that is a \<open>char list\<close> of 8-bit characters), which is what
  the serializer works on: \<open>URLSearchParams.toString()\<close> is the
  application/x-www-form-urlencoded serializer of the WHATWG URL standard. It writes the
  bytes 0x2A, 0x2D, 0x2E, 0x30-0x39, 0x41-0x5A, 0x5F and 0x61-0x7A as they are, the
  byte 0x20 as \<open>+\<close>, and every other byte as \<open>%\<close> followed by two upper-case
  hexadecimal digits; pairs are written \<open>name=value\<close> and joined with \<open>&\<close>.
\<close>

type_synonym url_search_params = "(string \<times> string) list"

definition params_append :: "string \<Rightarrow> string \<Rightarrow> url_search_params \<Rightarrow> url_search_params" where
  "params_append name v params = params @ [(name, v)]"

definition is_unreserved :: "char \<Rightarrow> bool" where
  "is_unreserved c =
     (let n = (of_char c :: nat)
      in n = 0x2A \<or> n = 0x2D \<or> n = 0x2E \<or> (0x30 \<le> n \<and> n \<le> 0x39) \<or>
         (0x41 \<le> n \<and> n \<le> 0x5A) \<or> n = 0x5F \<or> (0x61 \<le> n \<and> n \<le> 0x7A))"

definition hex_digit :: "nat \<Rightarrow> char" where
  "hex_digit n = ''0123456789ABCDEF'' ! n"

definition percent_encode_byte :: "char \<Rightarrow> string" where
  "percent_encode_byte c =
     [CHR ''%'', hex_digit ((of_char c :: nat) div 16), hex_digit ((of_char c :: nat) mod 16)]"

definition form_encode_byte :: "char \<Rightarrow> string" where
  "form_encode_byte c =
     (if c = CHR '' '' then ''+''
      else if is_unreserved c then [c]
      else percent_encode_byte c)"

definition form_encode :: "string \<Rightarrow> string" where
  "form_encode s = concat (map form_encode_byte s)"

text \<open>\<open>Array.prototype.join\<close> on an array of strings, also used to join the pairs.\<close>

fun join :: "string \<Rightarrow> string list \<Rightarrow> string" where
  "join sep [] = []"
| "join sep [x] = x"
| "join sep (x # y # ys) = x @ sep @ join sep (y # ys)"

definition serialize_pair :: "string \<times> string \<Rightarrow> string" where
  "serialize_pair p = form_encode (fst p) @ ''='' @ form_encode (snd p)"

definition params_toString :: "url_search_params \<Rightarrow> string" where
  "params_toString params = join ''&'' (map serialize_pair params)"

section \<open>buildUrl\<close>

text \<open>
  \<open>LoadOptions\<close>: every field is optional, and so is the options argument itself.
\<close>

record load_options =
  libraries :: "string list option"
  language :: "string option"
  region :: "string option"

text \<open>
  The guards of \<open>buildUrl\<close> are JavaScript truthiness tests: \<open>options?.language\<close>
  is falsy when the options or the field are absent and also when the field is the empty
  string; an array is always truthy, so the libraries guard is decided by its length.
\<close>

definition truthy_string :: "string option \<Rightarrow> bool" where
  "truthy_string v = (case v of None \<Rightarrow> False | Some s \<Rightarrow> s \<noteq> [])"

definition buildUrl :: "string \<Rightarrow> load_options option \<Rightarrow> string" where
  "buildUrl apiKey options =
     (let params0 = [];
          params1 = params_append ''key'' apiKey params0;
          params2 = (case Option.bind options libraries of
                       None \<Rightarrow> params1
                     | Some libs \<Rightarrow>
                         if length libs > 0
                         then params_append ''libraries'' (join '','' libs) params1
                         else params1);
          params3 = (if truthy_string (Option.bind options language)
                     then params_append ''language'' (the (Option.bind options language)) params2
                     else params2);
          params4 = (if truthy_string (Option.bind options region)
                     then params_append ''region'' (the (Option.bind options region)) params3
                     else params3)
      in ''https://maps.googleapis.com/maps/api/js?'' @ params_toString params4)"

section \<open>Reading a query string back\<close>

text \<open>
  What a URL carries is what its consumer reads out of it. The reader of a query string
  is the application/x-www-form-urlencoded parser of the same standard (the one behind
  \<open>new URLSearchParams(query)\<close>): split at \<open>&\<close>, skip empty pieces, split
  each piece at its first \<open>=\<close>, turn \<open>+\<close> into a space and decode every
  \<open>%\<close> that is followed by two hexadecimal digits. It is used only to state
  which parameters a URL has.
\<close>

fun split_on :: "char \<Rightarrow> string \<Rightarrow> string list" where
  "split_on c [] = [[]]"
| "split_on c (x # xs) =
     (if x = c then [] # split_on c xs
      else (case split_on c xs of [] \<Rightarrow> [[x]] | y # ys \<Rightarrow> (x # y) # ys))"

definition hex_value :: "char \<Rightarrow> nat option" where
  "hex_value c =
     (let n = (of_char c :: nat)
      in if 0x30 \<le> n \<and> n \<le> 0x39 then Some (n - 0x30)
         else if 0x41 \<le> n \<and> n \<le> 0x46 then Some (n - 0x37)
         else if 0x61 \<le> n \<and> n \<le> 0x66 then Some (n - 0x57)
         else None)"

fun percent_decode :: "string \<Rightarrow> string" where
  "percent_decode (c # h # l # rest) =
     (if c = CHR ''%'' then
        (case (hex_value h, hex_value l) of
           (Some a, Some b) \<Rightarrow> char_of (16 * a + b) # percent_decode rest
         | _ \<Rightarrow> c # percent_decode (h # l # rest))
      else c # percent_decode (h # l # rest))"
| "percent_decode (c # rest) = c # percent_decode rest"
| "percent_decode [] = []"

definition form_decode :: "string \<Rightarrow> string" where
  "form_decode s = percent_decode (map (\<lambda>c. if c = CHR ''+'' then CHR '' '' else c) s)"

definition parse_pair :: "string \<Rightarrow> string \<times> string" where
  "parse_pair s =
     (form_decode (takeWhile (\<lambda>c. c \<noteq> CHR ''='') s),
      form_decode (drop 1 (dropWhile (\<lambda>c. c \<noteq> CHR ''='') s)))"

definition parse_query :: "string \<Rightarrow> url_search_params" where
  "parse_query q = map parse_pair (filter (\<lambda>s. s \<noteq> []) (split_on CHR ''&'' q))"

text \<open>The query of a URL is what follows its first \<open>?\<close>.\<close>

definition url_query :: "string \<Rightarrow> string" where
  "url_query url = drop 1 (dropWhile (\<lambda>c. c \<noteq> CHR ''?'') url)"

definition url_params :: "string \<Rightarrow> url_search_params" where
  "url_params url = parse_query (url_query url)"

section \<open>The browser and the loader\<close>

text \<open>
  \<open>GoogleMapsLoaderImpl\<close> is a singleton with two private fields; everything else
  it touches is browser state: the globals \<open>window.google\<close> and
  \<open>window.__googleMapsCallback__\<close>, the script elements it creates, the children of
  \<open>document.head\<close>, and the promises it hands out. All of it is one record that
  every operation takes and returns. Promises and script elements are objects with an
  identity: each lives in a store (a list) and is named by its index there, so that
  "the same promise" is equality of indices. The service is browser-only, so
  \<open>window\<close> and \<open>document\<close> always exist.
\<close>

type_synonym promise_id = nat
type_synonym elem_id = nat
type_synonym library = nat

datatype js_error = Error string | TypeError

datatype 'a promise_state = Pending | Fulfilled 'a | Rejected js_error

text \<open>
  The namespace \<open>google.maps\<close> is modelled by the one member the loader calls, its
  own \<open>importLibrary\<close>; the result of that call is the eventual outcome of the
  promise it returns (\<open>Inl\<close> a rejection, \<open>Inr\<close> the imported library).
\<close>

record maps_ns =
  maps_importLibrary :: "string \<Rightarrow> js_error + library"

record google_api =
  maps :: "maps_ns option"

text \<open>
  The two closures that \<open>load\<close> creates. Each captures the \<open>resolve\<close> or
  \<open>reject\<close> function of the promise under construction, the loader and the
  callback name; the promise is all that distinguishes two of them.
\<close>

datatype callback = ResolveLoad promise_id

datatype error_handler = RejectLoad promise_id

record script_element =
  src :: string
  async :: bool
  deferred :: bool
  onerror :: "error_handler option"

record world =
  loadingPromise :: "promise_id option"
  scriptElement :: "elem_id option"
  window_google :: "google_api option"
  window_callback :: "callback option"
  promises :: "google_api option promise_state list"
  elements :: "script_element list"
  head_children :: "elem_id list option"
  body_scripts :: "elem_id list"
  import_log :: "string list"

text \<open>
  \<open>head_children\<close> holds the script elements under \<open>document.head\<close>, in
  order; it is \<open>None\<close> when \<open>document.head\<close> is null, and then
  \<open>document.head.appendChild\<close> throws a TypeError, the one way \<open>addScript\<close>
  can fail. \<open>body_scripts\<close> holds the script elements connected to the document
  anywhere after the head (the loader never puts one there, but \<open>getScript\<close>
  can find and adopt one). \<open>import_log\<close> records the names passed to the API's
  own \<open>importLibrary\<close>, the only other request the loader can cause.
\<close>

definition initial :: world where
  "initial = \<lparr>loadingPromise = None, scriptElement = None, window_google = None,
     window_callback = None, promises = [], elements = [], head_children = Some [],
     body_scripts = [], import_log = []\<rparr>"

definition callbackName :: string where
  "callbackName = ''__googleMapsCallback__''"

subsection \<open>Promises\<close>

text \<open>
  \<open>new_promise\<close> allocates a promise in the given state (\<open>Promise.resolve\<close>,
  \<open>Promise.reject\<close> or the start of \<open>new Promise\<close>). Calling a promise's
  \<open>resolve\<close> or \<open>reject\<close> settles it if it is pending and does nothing
  otherwise.
\<close>

definition new_promise :: "google_api option promise_state \<Rightarrow> world \<Rightarrow> promise_id \<times> world" where
  "new_promise st s = (length (promises s), s\<lparr>promises := promises s @ [st]\<rparr>)"

definition settle :: "promise_id \<Rightarrow> google_api option promise_state \<Rightarrow> world \<Rightarrow> world" where
  "settle p st s =
     (if p < length (promises s) then
        (case promises s ! p of
           Pending \<Rightarrow> s\<lparr>promises := (promises s)[p := st]\<rparr>
         | _ \<Rightarrow> s)
      else s)"

subsection \<open>The document\<close>

text \<open>
  The connected script elements in tree order, \<open>document.contains\<close> and
  \<open>Element.remove\<close>. A node has one place in the tree at most, so removing it
  removes every occurrence.
\<close>

definition connected_scripts :: "world \<Rightarrow> elem_id list" where
  "connected_scripts s =
     (case head_children s of None \<Rightarrow> [] | Some cs \<Rightarrow> cs) @ body_scripts s"

definition document_contains :: "world \<Rightarrow> elem_id \<Rightarrow> bool" where
  "document_contains s e = (e \<in> set (connected_scripts s))"

definition remove_element :: "elem_id \<Rightarrow> world \<Rightarrow> world" where
  "remove_element e s =
     s\<lparr>head_children := map_option (removeAll e) (head_children s),
       body_scripts := removeAll e (body_scripts s)\<rparr>"




definition addScript :: "string \<Rightarrow> world \<Rightarrow> (js_error + elem_id) \<times> world" where
  "addScript url s =
     (let script = length (elements s);
          s1 = s\<lparr>elements := elements s @
                 [\<lparr>src = url, async = True, deferred = True, onerror = None\<rparr>]\<rparr>
      in case head_children s1 of
           None \<Rightarrow> (Inl TypeError, s1)
         | Some cs \<Rightarrow> (Inr script, s1\<lparr>head_children := Some (cs @ [script])\<rparr>))"

definition set_onerror :: "elem_id \<Rightarrow> error_handler \<Rightarrow> world \<Rightarrow> world" where
  "set_onerror e h s = s\<lparr>elements := (elements s)[e := (elements s ! e)\<lparr>onerror := Some h\<rparr>]\<rparr>"

subsection \<open>The loader's operations\<close>

definition isLoaded :: "world \<Rightarrow> bool" where
  "isLoaded s =
     (case window_google s of
        None \<Rightarrow> False
      | Some g \<Rightarrow> (case maps g of None \<Rightarrow> False | Some m \<Rightarrow> True))"

text \<open>
  \<open>load\<close>. The executor of \<open>new Promise\<close> runs at once, inside the
  constructor: it registers the callback, adds the script and sets its error handler, or
  catches what \<open>addScript\<close> throws. Only then is the new promise assigned to
  \<open>this.loadingPromise\<close>, after whatever the executor did to that field.
\<close>

definition load :: "string \<Rightarrow> load_options option \<Rightarrow> world \<Rightarrow> promise_id \<times> world" where
  "load apiKey options s =
     (if isLoaded s then new_promise (Fulfilled (window_google s)) s
      else case loadingPromise s of
        Some p \<Rightarrow> (p, s)
      | None \<Rightarrow>
          (let url = buildUrl apiKey options;
               (p, s1) = new_promise Pending s;
               s2 = s1\<lparr>window_callback := Some (ResolveLoad p)\<rparr>;
               scriptUrl = url @ ''&callback='' @ callbackName;
               s4 = (case addScript scriptUrl s2 of
                       (Inr e, s3) \<Rightarrow>
                         set_onerror e (RejectLoad p) (s3\<lparr>scriptElement := Some e\<rparr>)
                     | (Inl err, s3) \<Rightarrow>
                         settle p (Rejected err)
                           (s3\<lparr>window_callback := None, loadingPromise := None\<rparr>))
           in (p, s4\<lparr>loadingPromise := Some p\<rparr>)))"

definition wait :: "world \<Rightarrow> promise_id \<times> world" where
  "wait s =
     (if isLoaded s then new_promise (Fulfilled (window_google s)) s
      else case loadingPromise s of
        Some p \<Rightarrow> (p, s)
      | None \<Rightarrow>
          new_promise (Rejected (Error
            ''Google Maps is not loaded and no load is in progress. Call load() first.'')) s)"

text \<open>
  \<open>importLibrary\<close> is an async function: what it returns is given as the eventual
  outcome of its promise. The last branch cannot be reached (\<open>isLoaded\<close> says the
  namespace is there); it is what reading a member of undefined would do.
\<close>

definition importLibrary :: "string \<Rightarrow> world \<Rightarrow> (js_error + library) \<times> world" where
  "importLibrary libraryName s =
     (if \<not> isLoaded s
      then (Inl (Error
        ''Google Maps API must be loaded before importing libraries. Call load() first.''), s)
      else case Option.bind (window_google s) maps of
        Some m \<Rightarrow>
          (maps_importLibrary m libraryName, s\<lparr>import_log := import_log s @ [libraryName]\<rparr>)
      | None \<Rightarrow> (Inl TypeError, s))"


definition dispose :: "world \<Rightarrow> world" where
  "dispose s =
     (let s1 = (case scriptElement s of
                  Some e \<Rightarrow> if document_contains s e then remove_element e s else s
                | None \<Rightarrow> s);
          s2 = s1\<lparr>scriptElement := None, loadingPromise := None\<rparr>;
          s3 = (case window_google s2 of Some g \<Rightarrow> s2\<lparr>window_google := None\<rparr> | None \<Rightarrow> s2);
          s4 = (case window_callback s3 of Some f \<Rightarrow> s3\<lparr>window_callback := None\<rparr> | None \<Rightarrow> s3)
      in s4)"

subsection \<open>What the browser does to the loader\<close>

text \<open>
  The fetched script installs \<open>window.google\<close> and then calls the function named
  by its \<open>callback\<close> parameter, if the global still holds one. A failed fetch
  dispatches an error event at the script element, which runs the element's
  \<open>onerror\<close> handler if it has one; the handler stays on the element whether or
  not the element is still in the document.
\<close>

definition invoke_callback :: "world \<Rightarrow> world" where
  "invoke_callback s =
     (case window_callback s of
        None \<Rightarrow> s
      | Some (ResolveLoad p) \<Rightarrow>
          (let s1 = s\<lparr>window_callback := None\<rparr>
           in settle p (Fulfilled (window_google s1)) s1))"

definition script_loaded :: "google_api \<Rightarrow> world \<Rightarrow> world" where
  "script_loaded g s = invoke_callback (s\<lparr>window_google := Some g\<rparr>)"

definition script_error :: "elem_id \<Rightarrow> world \<Rightarrow> world" where
  "script_error e s =
     (if e < length (elements s) then
        (case onerror (elements s ! e) of
           None \<Rightarrow> s
         | Some (RejectLoad p) \<Rightarrow>
             settle p (Rejected (Error ''Failed to load Google Maps script''))
               (s\<lparr>window_callback := None, loadingPromise := None\<rparr>))
      else s)"

subsection \<open>Runs\<close>

text \<open>A run of \<open>load\<close> calls, with the promise each call returned.\<close>

fun load_all :: "(string \<times> load_options option) list \<Rightarrow> world \<Rightarrow> promise_id list \<times> world" where
  "load_all [] s = ([], s)"
| "load_all ((apiKey, options) # calls) s =
     (let (p, s1) = load apiKey options s;
          (ps, s2) = load_all calls s1
      in (p # ps, s2))"




subsection \<open>Error handlers and orphaned promises\<close>



section \<open>The serializer and the parser\<close>

text \<open>
  The serializer never writes a bare \<open>&\<close> or \<open>=\<close> inside a name or a
  value, and the parser undoes it: a list of pairs survives the round trip.
\<close>

lemma hex_digit_cases:
  assumes "n < 16"
  shows "hex_value (hex_digit n) = Some n"
    and "hex_digit n \<noteq> CHR ''&''" and "hex_digit n \<noteq> CHR ''=''" and "hex_digit n \<noteq> CHR ''+''"
proof -
  from assms consider "n = 0" | "n = 1" | "n = 2" | "n = 3" | "n = 4" | "n = 5" | "n = 6"
    | "n = 7" | "n = 8" | "n = 9" | "n = 10" | "n = 11" | "n = 12" | "n = 13" | "n = 14"
    | "n = 15"
    by atomize_elim arith
  then have "hex_value (hex_digit n) = Some n \<and> hex_digit n \<noteq> CHR ''&'' \<and>
      hex_digit n \<noteq> CHR ''='' \<and> hex_digit n \<noteq> CHR ''+''"
    by cases (simp_all add: hex_value_def hex_digit_def)
  then show "hex_value (hex_digit n) = Some n"
    and "hex_digit n \<noteq> CHR ''&''" and "hex_digit n \<noteq> CHR ''=''" and "hex_digit n \<noteq> CHR ''+''"
    by simp_all
qed

lemma unreserved_not_special:
  "is_unreserved c \<Longrightarrow> c \<noteq> CHR ''&'' \<and> c \<noteq> CHR ''='' \<and> c \<noteq> CHR ''+'' \<and> c \<noteq> CHR ''%''"
  by (auto simp: is_unreserved_def)

lemma nibbles_lt_16: "(of_char c :: nat) div 16 < 16" "(of_char c :: nat) mod 16 < 16"
  using nat_of_char_less_256[of c] by arith+

lemma form_encode_byte_no_sep:
  "CHR ''&'' \<notin> set (form_encode_byte c) \<and> CHR ''='' \<notin> set (form_encode_byte c)"
  using unreserved_not_special[of c] hex_digit_cases(2,3)[OF nibbles_lt_16(1)[of c]]
    hex_digit_cases(2,3)[OF nibbles_lt_16(2)[of c]]
  by (auto simp: form_encode_byte_def percent_encode_byte_def)

lemma form_encode_no_sep:
  "CHR ''&'' \<notin> set (form_encode s) \<and> CHR ''='' \<notin> set (form_encode s)"
  using form_encode_byte_no_sep by (auto simp: form_encode_def)

lemma percent_decode_plain:
  "c \<noteq> CHR ''%'' \<Longrightarrow> percent_decode (c # rest) = c # percent_decode rest"
  by (cases rest rule: percent_decode.cases) (auto split: list.splits)

lemma percent_decode_escape:
  "hex_value h = Some a \<Longrightarrow> hex_value l = Some b \<Longrightarrow>
   percent_decode (CHR ''%'' # h # l # rest) = char_of (16 * a + b) # percent_decode rest"
  by simp

lemma form_decode_Cons_plain:
  "c \<noteq> CHR ''%'' \<Longrightarrow> c \<noteq> CHR ''+'' \<Longrightarrow> form_decode (c # s) = c # form_decode s"
  by (simp add: form_decode_def percent_decode_plain)

lemma form_decode_Cons_plus: "form_decode (CHR ''+'' # s) = CHR '' '' # form_decode s"
  by (simp add: form_decode_def percent_decode_plain)

lemma form_decode_Cons_escape:
  "form_decode (percent_encode_byte c @ s) = c # form_decode s"
proof -
  let ?h = "hex_digit (of_char c div 16)" and ?l = "hex_digit (of_char c mod 16)"
  have h: "hex_value ?h = Some (of_char c div 16)" and l: "hex_value ?l = Some (of_char c mod 16)"
    by (simp_all add: hex_digit_cases nibbles_lt_16)
  have "?h \<noteq> CHR ''+''" "?l \<noteq> CHR ''+''"
    by (simp_all add: hex_digit_cases nibbles_lt_16)
  then have "form_decode (percent_encode_byte c @ s) =
      percent_decode (CHR ''%'' # ?h # ?l # map (\<lambda>c. if c = CHR ''+'' then CHR '' '' else c) s)"
    by (simp add: form_decode_def percent_encode_byte_def)
  also have "\<dots> = char_of (16 * (of_char c div 16) + of_char c mod 16) # form_decode s"
    using percent_decode_escape[OF h l] by (simp add: form_decode_def)
  finally show ?thesis by simp
qed

lemma form_decode_encode_byte:
  "form_decode (form_encode_byte c @ s) = c # form_decode s"
  using unreserved_not_special[of c]
  by (simp add: form_encode_byte_def form_decode_Cons_plus form_decode_Cons_plain
      form_decode_Cons_escape)

lemma form_decode_encode: "form_decode (form_encode s) = s"
proof (induction s)
  case Nil
  show ?case by (simp add: form_encode_def form_decode_def)
next
  case (Cons c s)
  have "form_encode (c # s) = form_encode_byte c @ form_encode s"
    by (simp add: form_encode_def)
  with Cons show ?case by (simp add: form_decode_encode_byte)
qed

lemma split_on_no_sep: "c \<notin> set xs \<Longrightarrow> split_on c xs = [xs]"
  by (induction xs) auto

lemma split_on_append:
  "c \<notin> set xs \<Longrightarrow> split_on c (xs @ c # ys) = xs # split_on c ys"
  by (induction xs) auto

lemma split_on_join_Cons:
  "\<forall>y \<in> set (x # xs). c \<notin> set y \<Longrightarrow> split_on c (join [c] (x # xs)) = x # xs"
proof (induction xs arbitrary: x)
  case Nil
  then show ?case by (simp add: split_on_no_sep)
next
  case (Cons y ys)
  then have "split_on c (join [c] (y # ys)) = y # ys" by simp
  moreover have "c \<notin> set x" using Cons.prems by simp
  ultimately show ?case by (simp add: split_on_append)
qed

lemma takeWhile_upto_sep: "c \<notin> set xs \<Longrightarrow> takeWhile (\<lambda>x. x \<noteq> c) (xs @ c # ys) = xs"
  by (induction xs) auto

lemma dropWhile_upto_sep: "c \<notin> set xs \<Longrightarrow> dropWhile (\<lambda>x. x \<noteq> c) (xs @ c # ys) = c # ys"
  by (induction xs) auto

lemma serialize_pair_no_amp: "CHR ''&'' \<notin> set (serialize_pair p)"
  using form_encode_no_sep by (simp add: serialize_pair_def)

lemma serialize_pair_nonempty: "serialize_pair p \<noteq> []"
  by (simp add: serialize_pair_def)

lemma parse_serialize_pair: "parse_pair (serialize_pair p) = p"
proof -
  have n: "CHR ''='' \<notin> set (form_encode (fst p))"
    using form_encode_no_sep by simp
  have "takeWhile (\<lambda>c. c \<noteq> CHR ''='') (serialize_pair p) = form_encode (fst p)"
    using n by (simp add: serialize_pair_def takeWhile_upto_sep)
  moreover have "dropWhile (\<lambda>c. c \<noteq> CHR ''='') (serialize_pair p) = CHR ''='' # form_encode (snd p)"
    using n by (simp add: serialize_pair_def dropWhile_upto_sep)
  ultimately show ?thesis
    by (simp add: parse_pair_def form_decode_encode)
qed

lemma parse_query_toString: "parse_query (params_toString ps) = ps"
proof (cases ps)
  case Nil
  then show ?thesis by (simp add: parse_query_def params_toString_def)
next
  case (Cons p ps')
  then have "split_on CHR ''&'' (params_toString ps) = map serialize_pair ps"
    using split_on_join_Cons[of "serialize_pair p" "map serialize_pair ps'" "CHR ''&''"]
      serialize_pair_no_amp
    by (simp add: params_toString_def)
  then show ?thesis
    by (simp add: parse_query_def serialize_pair_nonempty parse_serialize_pair map_idI)
qed

lemma url_query_base: "url_query (''https://maps.googleapis.com/maps/api/js?'' @ q) = q"
  by (simp add: url_query_def)

lemma buildUrl_closed_form:
  "buildUrl apiKey options =
     ''https://maps.googleapis.com/maps/api/js?'' @ params_toString
       ((''key'', apiKey) #
        (case Option.bind options libraries of
           None \<Rightarrow> [] | Some libs \<Rightarrow> if libs = [] then [] else [(''libraries'', join '','' libs)]) @
        (case Option.bind options language of
           None \<Rightarrow> [] | Some l \<Rightarrow> if l = [] then [] else [(''language'', l)]) @
        (case Option.bind options region of
           None \<Rightarrow> [] | Some r \<Rightarrow> if r = [] then [] else [(''region'', r)]))"
  by (simp add: buildUrl_def params_append_def truthy_string_def Let_def split: option.splits)

lemma is_unreserved_literal:
  "is_unreserved c \<longleftrightarrow>
   c \<in> set ''ABCDEFGHIJKLMNOPQRSTUVWXYZabcdefghijklmnopqrstuvwxyz0123456789*-._''"
proof (cases c)
  case (Char b0 b1 b2 b3 b4 b5 b6 b7)
  show ?thesis
    unfolding Char
    by (cases b0; cases b1; cases b2; cases b3; cases b4; cases b5; cases b6; cases b7;
        simp add: is_unreserved_def)
qed

lemma form_encode_append: "form_encode (xs @ ys) = form_encode xs @ form_encode ys"
  by (simp add: form_encode_def)

lemma form_encode_join:
  "form_encode (join sep xs) = join (form_encode sep) (map form_encode xs)"
  by (induction sep xs rule: join.induct) (simp_all add: form_encode_append, simp add: form_encode_def)

lemma form_encode_byte_literal:
  "form_encode_byte c =
     (if c = CHR '' '' then ''+''
      else if c \<in> set ''ABCDEFGHIJKLMNOPQRSTUVWXYZabcdefghijklmnopqrstuvwxyz0123456789*-._''
      then [c]
      else [CHR ''%'', ''0123456789ABCDEF'' ! (of_char c div 16),
            ''0123456789ABCDEF'' ! (of_char c mod 16)])"
  unfolding form_encode_byte_def is_unreserved_literal percent_encode_byte_def hex_digit_def
  by (rule refl)

lemma form_encode_names:
  "form_encode ''key'' = ''key''" "form_encode ''libraries'' = ''libraries''"
  "form_encode ''language'' = ''language''" "form_encode ''region'' = ''region''"
  by (simp_all add: form_encode_def form_encode_byte_literal)

section \<open>Properties of buildUrl\<close>

text \<open>
  Claim C2. The example of the doc comment of \<open>buildUrl\<close>, and of the
  specification: key \<open>YOUR_API_KEY\<close>, libraries places and drawing, language en,
  region US. The doc comment (and the claim) give the result with a literal comma between
  the library names. \<open>URLSearchParams\<close> serializes the comma of \<open>join(',')\<close>
  as \<open>%2C\<close>, so the code returns a different string.
\<close>

theorem buildUrl_doc_example:
  "buildUrl ''YOUR_API_KEY''
     (Some \<lparr>libraries = Some [''places'', ''drawing''], language = Some ''en'', region = Some ''US''\<rparr>)
   = ''https://maps.googleapis.com/maps/api/js?key=YOUR_API_KEY&libraries=places%2Cdrawing&language=en&region=US''
   \<and> buildUrl ''YOUR_API_KEY''
     (Some \<lparr>libraries = Some [''places'', ''drawing''], language = Some ''en'', region = Some ''US''\<rparr>)
   \<noteq> ''https://maps.googleapis.com/maps/api/js?key=YOUR_API_KEY&libraries=places,drawing&language=en&region=US''"
  by (simp add: buildUrl_def params_append_def params_toString_def serialize_pair_def
      form_encode_def form_encode_byte_def is_unreserved_def percent_encode_byte_def
      hex_digit_def truthy_string_def Let_def)

text \<open>
  Claim C8, as stated, says that the language parameter is in the URL exactly when a
  language is provided, and that nothing is URL-encoded beyond what is required. The
  guard of the code is a truthiness test: a language that is provided as the empty string
  is left out (and so is such a region). And \<open>URLSearchParams\<close> encodes more than
  a URL requires: a tilde in the key, which a query may carry as it is, comes out as
  \<open>%7E\<close>.
\<close>

theorem buildUrl_empty_language_and_tilde:
  "buildUrl ''k'' (Some \<lparr>libraries = None, language = Some [], region = None\<rparr>)
     = ''https://maps.googleapis.com/maps/api/js?key=k''
   \<and> ''language'' \<notin> fst ` set (url_params
       (buildUrl ''k'' (Some \<lparr>libraries = None, language = Some [], region = None\<rparr>)))
   \<and> buildUrl ''a~b'' None = ''https://maps.googleapis.com/maps/api/js?key=a%7Eb''"
proof (intro conjI)
  show "buildUrl ''k'' (Some \<lparr>libraries = None, language = Some [], region = None\<rparr>)
     = ''https://maps.googleapis.com/maps/api/js?key=k''"
    by (simp add: buildUrl_closed_form params_toString_def serialize_pair_def form_encode_def
        form_encode_byte_def is_unreserved_def)
  have "url_params (buildUrl ''k'' (Some \<lparr>libraries = None, language = Some [], region = None\<rparr>))
     = [(''key'', ''k'')]"
    unfolding buildUrl_closed_form url_params_def url_query_base parse_query_toString
    by simp
  then show "''language'' \<notin> fst ` set (url_params
       (buildUrl ''k'' (Some \<lparr>libraries = None, language = Some [], region = None\<rparr>)))"
    by simp
  show "buildUrl ''a~b'' None = ''https://maps.googleapis.com/maps/api/js?key=a%7Eb''"
    by (simp add: buildUrl_closed_form params_toString_def serialize_pair_def form_encode_def
        form_encode_byte_def is_unreserved_def percent_encode_byte_def hex_digit_def)
qed

text \<open>
  Claim C8, amended. For every key and every options value, the URL is the fixed
  endpoint, then \<open>key=\<close> and the key, always; then \<open>&libraries=\<close> and the
  library names joined, exactly when the list is present and not empty; then
  \<open>&language=\<close> and the language, exactly when it is provided and not the empty
  string; then \<open>&region=\<close> and the region, likewise; in this order and with
  nothing else. The key, every library name, the language and the region are written in
  the encoding of \<open>URLSearchParams\<close> and in no other: the bytes of
  \<open>A-Z a-z 0-9 * - . _\<close> as they are, a space as \<open>+\<close>, every other byte as
  \<open>%\<close> and two upper-case hexadecimal digits. The library names are joined by a
  separator that a form-urlencoded parser reads as a comma; how the separator is spelled
  is left open here. Read back by that parser, the parameters are exactly \<open>key\<close>
  with the given key, \<open>libraries\<close> with the comma-joined list, \<open>language\<close>
  and \<open>region\<close> with the given values.
\<close>

theorem buildUrl_params:
  "(\<exists>q. buildUrl apiKey options = ''https://maps.googleapis.com/maps/api/js?'' @ q) \<and>
   url_params (buildUrl apiKey options) =
     (''key'', apiKey) #
     (case Option.bind options libraries of
        None \<Rightarrow> [] | Some libs \<Rightarrow> if libs = [] then [] else [(''libraries'', join '','' libs)]) @
     (case Option.bind options language of
        None \<Rightarrow> [] | Some l \<Rightarrow> if l = [] then [] else [(''language'', l)]) @
     (case Option.bind options region of
        None \<Rightarrow> [] | Some r \<Rightarrow> if r = [] then [] else [(''region'', r)]) \<and>
   (\<exists>sep. form_decode sep = '','' \<and>
      buildUrl apiKey options =
        ''https://maps.googleapis.com/maps/api/js?key='' @ form_encode apiKey @
        (case Option.bind options libraries of
           None \<Rightarrow> []
         | Some libs \<Rightarrow>
             if libs = [] then [] else ''&libraries='' @ join sep (map form_encode libs)) @
        (case Option.bind options language of
           None \<Rightarrow> [] | Some l \<Rightarrow> if l = [] then [] else ''&language='' @ form_encode l) @
        (case Option.bind options region of
           None \<Rightarrow> [] | Some r \<Rightarrow> if r = [] then [] else ''&region='' @ form_encode r)) \<and>
   (\<forall>s. form_encode s = concat (map form_encode_byte s)) \<and>
   (\<forall>c. form_encode_byte c =
      (if c = CHR '' '' then ''+''
       else if c \<in> set ''ABCDEFGHIJKLMNOPQRSTUVWXYZabcdefghijklmnopqrstuvwxyz0123456789*-._''
       then [c]
       else [CHR ''%'', ''0123456789ABCDEF'' ! (of_char c div 16),
             ''0123456789ABCDEF'' ! (of_char c mod 16)]))"
proof (intro conjI)
  show "\<exists>q. buildUrl apiKey options = ''https://maps.googleapis.com/maps/api/js?'' @ q"
    unfolding buildUrl_closed_form by simp
  show "url_params (buildUrl apiKey options) =
     (''key'', apiKey) #
     (case Option.bind options libraries of
        None \<Rightarrow> [] | Some libs \<Rightarrow> if libs = [] then [] else [(''libraries'', join '','' libs)]) @
     (case Option.bind options language of
        None \<Rightarrow> [] | Some l \<Rightarrow> if l = [] then [] else [(''language'', l)]) @
     (case Option.bind options region of
        None \<Rightarrow> [] | Some r \<Rightarrow> if r = [] then [] else [(''region'', r)])"
    unfolding buildUrl_closed_form url_params_def url_query_base parse_query_toString
    by simp
  have dec: "form_decode (form_encode '','') = '',''"
    by (rule form_decode_encode)
  have "buildUrl apiKey options =
        ''https://maps.googleapis.com/maps/api/js?key='' @ form_encode apiKey @
        (case Option.bind options libraries of
           None \<Rightarrow> []
         | Some libs \<Rightarrow>
             if libs = [] then []
             else ''&libraries='' @ join (form_encode '','') (map form_encode libs)) @
        (case Option.bind options language of
           None \<Rightarrow> [] | Some l \<Rightarrow> if l = [] then [] else ''&language='' @ form_encode l) @
        (case Option.bind options region of
           None \<Rightarrow> [] | Some r \<Rightarrow> if r = [] then [] else ''&region='' @ form_encode r)"
    unfolding buildUrl_closed_form
    by (simp add: params_toString_def serialize_pair_def form_encode_join
        form_encode_names split: option.splits)
  with dec show "\<exists>sep. form_decode sep = '','' \<and>
      buildUrl apiKey options =
        ''https://maps.googleapis.com/maps/api/js?key='' @ form_encode apiKey @
        (case Option.bind options libraries of
           None \<Rightarrow> []
         | Some libs \<Rightarrow>
             if libs = [] then [] else ''&libraries='' @ join sep (map form_encode libs)) @
        (case Option.bind options language of
           None \<Rightarrow> [] | Some l \<Rightarrow> if l = [] then [] else ''&language='' @ form_encode l) @
        (case Option.bind options region of
           None \<Rightarrow> [] | Some r \<Rightarrow> if r = [] then [] else ''&region='' @ form_encode r)"
    by blast
  show "\<forall>s. form_encode s = concat (map form_encode_byte s)"
    by (simp add: form_encode_def)
  show "\<forall>c. form_encode_byte c =
      (if c = CHR '' '' then ''+''
       else if c \<in> set ''ABCDEFGHIJKLMNOPQRSTUVWXYZabcdefghijklmnopqrstuvwxyz0123456789*-._''
       then [c]
       else [CHR ''%'', ''0123456789ABCDEF'' ! (of_char c div 16),
             ''0123456789ABCDEF'' ! (of_char c mod 16)])"
    using form_encode_byte_literal by blast
qed

theorem buildUrl_params_witness:
  "buildUrl ''a~b c'' (Some \<lparr>libraries = Some [''places''], language = Some ''en'', region = Some []\<rparr>)
     = ''https://maps.googleapis.com/maps/api/js?key=a%7Eb+c&libraries=places&language=en'' \<and>
   url_params (buildUrl ''a b&c''
     (Some \<lparr>libraries = Some [''places'', ''drawing''], language = Some ''en'', region = Some []\<rparr>))
   = [(''key'', ''a b&c''), (''libraries'', ''places,drawing''), (''language'', ''en'')]"
proof
  from buildUrl_params [of "''a~b c''"
    "Some \<lparr>libraries = Some [''places''], language = Some ''en'', region = Some []\<rparr>"]
  obtain sep where
    u: "buildUrl ''a~b c''
          (Some \<lparr>libraries = Some [''places''], language = Some ''en'', region = Some []\<rparr>) =
        ''https://maps.googleapis.com/maps/api/js?key='' @ form_encode ''a~b c'' @
        ''&libraries='' @ join sep (map form_encode [''places'']) @
        ''&language='' @ form_encode ''en''"
    and e: "\<forall>s. form_encode s = concat (map form_encode_byte s)"
    and b: "\<forall>c. form_encode_byte c =
      (if c = CHR '' '' then ''+''
       else if c \<in> set ''ABCDEFGHIJKLMNOPQRSTUVWXYZabcdefghijklmnopqrstuvwxyz0123456789*-._''
       then [c]
       else [CHR ''%'', ''0123456789ABCDEF'' ! (of_char c div 16),
             ''0123456789ABCDEF'' ! (of_char c mod 16)])"
    by auto
  show "buildUrl ''a~b c''
      (Some \<lparr>libraries = Some [''places''], language = Some ''en'', region = Some []\<rparr>)
     = ''https://maps.googleapis.com/maps/api/js?key=a%7Eb+c&libraries=places&language=en''"
    unfolding u by (simp add: e b)
  from buildUrl_params [of "''a b&c''"
    "Some \<lparr>libraries = Some [''places'', ''drawing''], language = Some ''en'', region = Some []\<rparr>"]
  show "url_params (buildUrl ''a b&c''
     (Some \<lparr>libraries = Some [''places'', ''drawing''], language = Some ''en'', region = Some []\<rparr>))
   = [(''key'', ''a b&c''), (''libraries'', ''places,drawing''), (''language'', ''en'')]"
    by simp
qed

section \<open>Lemmas on the loader\<close>

text \<open>The branches of \<open>load\<close>, each with the state it leaves.\<close>

lemma load_loaded:
  "isLoaded s \<Longrightarrow>
   load apiKey options s =
     (length (promises s), s\<lparr>promises := promises s @ [Fulfilled (window_google s)]\<rparr>)"
  by (simp add: load_def new_promise_def)

lemma load_in_flight:
  "\<not> isLoaded s \<Longrightarrow> loadingPromise s = Some p \<Longrightarrow> load apiKey options s = (p, s)"
  by (simp add: load_def)

lemma load_fresh:
  "\<not> isLoaded s \<Longrightarrow> loadingPromise s = None \<Longrightarrow> head_children s = Some cs \<Longrightarrow>
   load apiKey options s =
     (length (promises s),
      s\<lparr>loadingPromise := Some (length (promises s)),
        scriptElement := Some (length (elements s)),
        window_callback := Some (ResolveLoad (length (promises s))),
        promises := promises s @ [Pending],
        elements := elements s @
          [\<lparr>src = buildUrl apiKey options @ ''&callback=__googleMapsCallback__'',
            async = True, deferred = True, onerror = Some (RejectLoad (length (promises s)))\<rparr>],
        head_children := Some (cs @ [length (elements s)])\<rparr>)"
  by (simp add: load_def new_promise_def addScript_def set_onerror_def callbackName_def Let_def)


lemma load_all_in_flight:
  "\<not> isLoaded s \<Longrightarrow> loadingPromise s = Some p \<Longrightarrow>
   load_all calls s = (replicate (length calls) p, s)"
  by (induction calls) (auto simp: load_in_flight)

text \<open>Settling a promise touches the promise store and nothing else.\<close>

lemma settle_pending:
  "p < length (promises s) \<Longrightarrow> promises s ! p = Pending \<Longrightarrow>
   settle p st s = s\<lparr>promises := (promises s)[p := st]\<rparr>"
  by (simp add: settle_def)

lemma settle_frame:
  "loadingPromise (settle p st s) = loadingPromise s"
  "scriptElement (settle p st s) = scriptElement s"
  "window_google (settle p st s) = window_google s"
  "window_callback (settle p st s) = window_callback s"
  "elements (settle p st s) = elements s"
  "head_children (settle p st s) = head_children s"
  "body_scripts (settle p st s) = body_scripts s"
  "import_log (settle p st s) = import_log s"
  "length (promises (settle p st s)) = length (promises s)"
  by (simp_all add: settle_def split: promise_state.splits)


lemma script_error_handler:
  "e < length (elements s) \<Longrightarrow> onerror (elements s ! e) = Some (RejectLoad p) \<Longrightarrow>
   script_error e s =
     settle p (Rejected (Error ''Failed to load Google Maps script''))
       (s\<lparr>window_callback := None, loadingPromise := None\<rparr>)"
  by (simp add: script_error_def)

lemma script_error_frame:
  "scriptElement (script_error e s) = scriptElement s"
  "window_google (script_error e s) = window_google s"
  "elements (script_error e s) = elements s"
  "head_children (script_error e s) = head_children s"
  "body_scripts (script_error e s) = body_scripts s"
  "import_log (script_error e s) = import_log s"
  "length (promises (script_error e s)) = length (promises s)"
  by (simp_all add: script_error_def settle_frame split: option.splits error_handler.splits)

lemma remove_absent:
  "\<not> document_contains s e \<Longrightarrow>
   map_option (removeAll e) (head_children s) = head_children s \<and>
   removeAll e (body_scripts s) = body_scripts s"
  by (cases "head_children s") (auto simp: document_contains_def connected_scripts_def)

lemma dispose_closed_form:
  "dispose s = s\<lparr>loadingPromise := None, scriptElement := None, window_google := None,
     window_callback := None,
     head_children := (case scriptElement s of
        None \<Rightarrow> head_children s
      | Some e \<Rightarrow> map_option (removeAll e) (head_children s)),
     body_scripts := (case scriptElement s of
        None \<Rightarrow> body_scripts s
      | Some e \<Rightarrow> removeAll e (body_scripts s))\<rparr>"
proof (cases "scriptElement s")
  case None
  then show ?thesis
    by (simp add: dispose_def Let_def split: option.splits)
next
  case (Some e)
  show ?thesis
  proof (cases "document_contains s e")
    case True
    with Some show ?thesis
      by (simp add: dispose_def remove_element_def Let_def split: option.splits)
  next
    case False
    with Some remove_absent[OF False] show ?thesis
      by (simp add: dispose_def Let_def split: option.splits)
  qed
qed

lemma dispose_fields:
  "scriptElement (dispose s) = None"
  "loadingPromise (dispose s) = None"
  "window_google (dispose s) = None"
  "window_callback (dispose s) = None"
  "promises (dispose s) = promises s"
  "elements (dispose s) = elements s"
  "import_log (dispose s) = import_log s"
  "head_children (dispose s) =
     (case scriptElement s of
        None \<Rightarrow> head_children s
      | Some e \<Rightarrow> map_option (removeAll e) (head_children s))"
  "body_scripts (dispose s) =
     (case scriptElement s of
        None \<Rightarrow> body_scripts s
      | Some e \<Rightarrow> removeAll e (body_scripts s))"
  by (simp_all add: dispose_closed_form)












text \<open>
  Some concrete states: after a first \<open>load\<close> on a fresh page, after its script
  has failed, after a retry, and after its script has run.
\<close>

lemma load_initial:
  "load apiKey options initial =
     (0, \<lparr>loadingPromise = Some 0, scriptElement = Some 0, window_google = None,
          window_callback = Some (ResolveLoad 0), promises = [Pending],
          elements = [\<lparr>src = buildUrl apiKey options @ ''&callback=__googleMapsCallback__'',
            async = True, deferred = True, onerror = Some (RejectLoad 0)\<rparr>],
          head_children = Some [0], body_scripts = [], import_log = []\<rparr>)"
proof -
  have "\<not> isLoaded initial" "loadingPromise initial = None" "head_children initial = Some []"
    by (simp_all add: initial_def isLoaded_def)
  then show ?thesis
    by (simp add: load_fresh) (simp add: initial_def)
qed

lemma error_after_load:
  "script_error 0 (snd (load apiKey options initial)) =
     \<lparr>loadingPromise = None, scriptElement = Some 0, window_google = None,
      window_callback = None,
      promises = [Rejected (Error ''Failed to load Google Maps script'')],
      elements = [\<lparr>src = buildUrl apiKey options @ ''&callback=__googleMapsCallback__'',
        async = True, deferred = True, onerror = Some (RejectLoad 0)\<rparr>],
      head_children = Some [0], body_scripts = [], import_log = []\<rparr>"
  by (simp add: load_initial script_error_def settle_def)

lemma retry_after_error:
  "load apiKey' options' (script_error 0 (snd (load apiKey options initial))) =
     (1, \<lparr>loadingPromise = Some 1, scriptElement = Some 1, window_google = None,
      window_callback = Some (ResolveLoad 1),
      promises = [Rejected (Error ''Failed to load Google Maps script''), Pending],
      elements = [\<lparr>src = buildUrl apiKey options @ ''&callback=__googleMapsCallback__'',
        async = True, deferred = True, onerror = Some (RejectLoad 0)\<rparr>,
        \<lparr>src = buildUrl apiKey' options' @ ''&callback=__googleMapsCallback__'',
        async = True, deferred = True, onerror = Some (RejectLoad 1)\<rparr>],
      head_children = Some [0, 1], body_scripts = [], import_log = []\<rparr>)"
  unfolding error_after_load
  by (subst load_fresh[where cs = "[0]"]) (simp_all add: isLoaded_def)

lemma loaded_after_callback:
  "script_loaded g (snd (load apiKey options initial)) =
     \<lparr>loadingPromise = Some 0, scriptElement = Some 0, window_google = Some g,
      window_callback = None, promises = [Fulfilled (Some g)],
      elements = [\<lparr>src = buildUrl apiKey options @ ''&callback=__googleMapsCallback__'',
        async = True, deferred = True, onerror = Some (RejectLoad 0)\<rparr>],
      head_children = Some [0], body_scripts = [], import_log = []\<rparr>"
  by (simp add: load_initial script_loaded_def invoke_callback_def settle_def)

section \<open>Properties of the loader\<close>

text \<open>
  Claim C1. While a load is in flight (\<open>isLoaded\<close> false, \<open>loadingPromise\<close>
  set to \<open>p\<close>), every call of \<open>load\<close>, whatever its key and options,
  returns the promise \<open>p\<close> itself and leaves the whole state as it is; so a run
  of such calls returns \<open>p\<close> every time and injects nothing. Counting from the
  call that starts the load (nothing loaded, nothing in flight, a document with a head):
  that call and all the calls that follow it return one and the same promise, which is
  pending, and at the end exactly one script element has been created and appended to
  the head.
\<close>

theorem load_coalesces:
  "(\<not> isLoaded s \<and> loadingPromise s = Some p \<longrightarrow>
      load_all calls s = (replicate (length calls) p, s)) \<and>
   (\<not> isLoaded s \<and> loadingPromise s = None \<and> head_children s = Some cs \<longrightarrow>
      (\<exists>s1. load_all ((apiKey, options) # calls) s =
              (replicate (Suc (length calls)) (length (promises s)), s1) \<and>
            promises s1 ! length (promises s) = Pending \<and>
            loadingPromise s1 = Some (length (promises s)) \<and>
            head_children s1 = Some (cs @ [length (elements s)]) \<and>
            length (elements s1) = Suc (length (elements s))))"
proof (intro conjI impI)
  assume "\<not> isLoaded s \<and> loadingPromise s = Some p"
  then show "load_all calls s = (replicate (length calls) p, s)"
    by (simp add: load_all_in_flight)
next
  assume a: "\<not> isLoaded s \<and> loadingPromise s = None \<and> head_children s = Some cs"
  obtain s1 where s1: "load apiKey options s = (length (promises s), s1)"
    and lp: "loadingPromise s1 = Some (length (promises s))"
    and g: "window_google s1 = window_google s"
    and pr: "promises s1 = promises s @ [Pending]"
    and hc: "head_children s1 = Some (cs @ [length (elements s)])"
    and el: "length (elements s1) = Suc (length (elements s))"
    using a by (simp add: load_fresh)
  have "\<not> isLoaded s1" using a g by (simp add: isLoaded_def)
  then have "load_all calls s1 = (replicate (length calls) (length (promises s)), s1)"
    using lp by (rule load_all_in_flight)
  then show "\<exists>s1. load_all ((apiKey, options) # calls) s =
              (replicate (Suc (length calls)) (length (promises s)), s1) \<and>
            promises s1 ! length (promises s) = Pending \<and>
            loadingPromise s1 = Some (length (promises s)) \<and>
            head_children s1 = Some (cs @ [length (elements s)]) \<and>
            length (elements s1) = Suc (length (elements s))"
    using s1 lp pr hc el by simp
qed

text \<open>
  Three calls on a fresh page return promise 0 three times and leave one script in the
  head; two more calls on the state the first call left return it again and change
  nothing.
\<close>

theorem load_coalesces_witness:
  "\<not> isLoaded initial \<and> loadingPromise initial = None \<and> head_children initial = Some [] \<and>
   fst (load_all [(''KEY'', None), (''KEY'', None), (''OTHER'', None)] initial) = [0, 0, 0] \<and>
   head_children (snd (load_all [(''KEY'', None), (''KEY'', None), (''OTHER'', None)] initial))
     = Some [0] \<and>
   \<not> isLoaded (snd (load ''KEY'' None initial)) \<and>
   loadingPromise (snd (load ''KEY'' None initial)) = Some 0 \<and>
   load_all [(''KEY'', None), (''OTHER'', None)] (snd (load ''KEY'' None initial))
     = ([0, 0], snd (load ''KEY'' None initial))"
proof -
  let ?s = "snd (load ''KEY'' None initial)"
  have h0: "\<not> isLoaded initial \<and> loadingPromise initial = None \<and> head_children initial = Some []"
    "length (promises initial) = 0" "length (elements initial) = 0"
    by (simp_all add: initial_def isLoaded_def)
  have h1: "\<not> isLoaded ?s \<and> loadingPromise ?s = Some 0"
    by (simp add: load_initial isLoaded_def)
  from load_coalesces [of initial 0 "[]" "[]" "''KEY''" None]
    load_coalesces [of initial 0 "[(''KEY'', None), (''OTHER'', None)]" "[]" "''KEY''" None]
    load_coalesces [of ?s 0 "[(''KEY'', None), (''OTHER'', None)]"] h0 h1
  show ?thesis by (auto simp: numeral_2_eq_2)
qed



text \<open>
  Claim C4. In every state in which \<open>isLoaded\<close> holds, \<open>load\<close>, for
  every key and all options, returns a new promise that is already fulfilled with the
  value of \<open>window.google\<close>, which is there. The state it leaves differs from
  the one it found by that promise alone: no script element is created or appended, and
  neither field of the loader, nor the callback, nor the global changes.
\<close>

theorem load_resolves_when_loaded:
  "isLoaded s \<Longrightarrow>
   window_google s \<noteq> None \<and>
   load apiKey options s =
     (length (promises s), s\<lparr>promises := promises s @ [Fulfilled (window_google s)]\<rparr>)"
  by (auto simp: load_loaded isLoaded_def split: option.splits)

text \<open>
  A page loaded with no options, then \<open>load\<close> with another key and a library
  list.
\<close>

theorem load_resolves_when_loaded_witness:
  "isLoaded (script_loaded \<lparr>maps = Some \<lparr>maps_importLibrary = (\<lambda>n. Inr 7)\<rparr>\<rparr>
      (snd (load ''KEY'' None initial))) \<and>
   load ''OTHER'' (Some \<lparr>libraries = Some [''places''], language = None, region = None\<rparr>)
     (script_loaded \<lparr>maps = Some \<lparr>maps_importLibrary = (\<lambda>n. Inr 7)\<rparr>\<rparr>
        (snd (load ''KEY'' None initial))) =
   (1, (script_loaded \<lparr>maps = Some \<lparr>maps_importLibrary = (\<lambda>n. Inr 7)\<rparr>\<rparr>
          (snd (load ''KEY'' None initial)))
       \<lparr>promises := [Fulfilled (Some \<lparr>maps = Some \<lparr>maps_importLibrary = (\<lambda>n. Inr 7)\<rparr>\<rparr>),
                     Fulfilled (Some \<lparr>maps = Some \<lparr>maps_importLibrary = (\<lambda>n. Inr 7)\<rparr>\<rparr>)]\<rparr>)"
proof -
  let ?g = "\<lparr>maps = Some \<lparr>maps_importLibrary = (\<lambda>n. Inr 7)\<rparr>\<rparr>"
  let ?s = "script_loaded ?g (snd (load ''KEY'' None initial))"
  have h: "isLoaded ?s" by (simp add: loaded_after_callback isLoaded_def)
  have e: "length (promises ?s) = 1" "window_google ?s = Some ?g"
    "promises ?s = [Fulfilled (Some ?g)]"
    by (simp_all add: loaded_after_callback)
  from load_resolves_when_loaded [OF h, of "''OTHER''"
      "Some \<lparr>libraries = Some [''places''], language = None, region = None\<rparr>"] h e
  show ?thesis by simp
qed

text \<open>
  Claim C5. \<open>wait\<close> returns a promise fulfilled with \<open>window.google\<close>
  when the API is loaded; otherwise the in-flight promise itself, with the state
  untouched, when there is one; otherwise a promise rejected with the Error
  \<open>Google Maps is not loaded and no load is in progress. Call load() first.\<close>
  In no case does it start a load: \<open>loadingPromise\<close>, \<open>scriptElement\<close>,
  the script elements, the document, the callback and the global are as before.
\<close>

theorem wait_never_loads:
  "(isLoaded s \<longrightarrow>
      wait s = (length (promises s), s\<lparr>promises := promises s @ [Fulfilled (window_google s)]\<rparr>)) \<and>
   (\<not> isLoaded s \<and> loadingPromise s = Some p \<longrightarrow> wait s = (p, s)) \<and>
   (\<not> isLoaded s \<and> loadingPromise s = None \<longrightarrow>
      wait s = (length (promises s), s\<lparr>promises := promises s @ [Rejected (Error
        ''Google Maps is not loaded and no load is in progress. Call load() first.'')]\<rparr>)) \<and>
   loadingPromise (snd (wait s)) = loadingPromise s \<and>
   scriptElement (snd (wait s)) = scriptElement s \<and>
   elements (snd (wait s)) = elements s \<and>
   head_children (snd (wait s)) = head_children s \<and>
   body_scripts (snd (wait s)) = body_scripts s \<and>
   window_callback (snd (wait s)) = window_callback s \<and>
   window_google (snd (wait s)) = window_google s"
  by (simp add: wait_def new_promise_def split: option.splits)

theorem wait_never_loads_witness:
  "isLoaded (script_loaded \<lparr>maps = Some \<lparr>maps_importLibrary = (\<lambda>n. Inr 7)\<rparr>\<rparr>
      (snd (load ''KEY'' None initial))) \<and>
   fst (wait (script_loaded \<lparr>maps = Some \<lparr>maps_importLibrary = (\<lambda>n. Inr 7)\<rparr>\<rparr>
      (snd (load ''KEY'' None initial)))) = 1 \<and>
   \<not> isLoaded (snd (load ''KEY'' None initial)) \<and>
   loadingPromise (snd (load ''KEY'' None initial)) = Some 0 \<and>
   wait (snd (load ''KEY'' None initial)) = (0, snd (load ''KEY'' None initial)) \<and>
   \<not> isLoaded initial \<and> loadingPromise initial = None \<and>
   wait initial = (0, initial\<lparr>promises := [Rejected (Error
     ''Google Maps is not loaded and no load is in progress. Call load() first.'')]\<rparr>)"
proof -
  let ?g = "\<lparr>maps = Some \<lparr>maps_importLibrary = (\<lambda>n. Inr 7)\<rparr>\<rparr>"
  let ?l = "script_loaded ?g (snd (load ''KEY'' None initial))"
  let ?s = "snd (load ''KEY'' None initial)"
  have h2: "isLoaded ?l" "length (promises ?l) = 1"
    by (simp_all add: loaded_after_callback isLoaded_def)
  have h1: "\<not> isLoaded ?s" "loadingPromise ?s = Some 0"
    by (simp_all add: load_initial isLoaded_def)
  have h0: "\<not> isLoaded initial" "loadingPromise initial = None" "promises initial = []"
    by (simp_all add: initial_def isLoaded_def)
  from wait_never_loads [of ?l 0] wait_never_loads [of ?s 0] wait_never_loads [of initial 0]
    h0 h1 h2
  show ?thesis by simp
qed

text \<open>
  Claim C6. For every library name: while \<open>isLoaded\<close> is false,
  \<open>importLibrary\<close> rejects with the Error
  \<open>Google Maps API must be loaded before importing libraries. Call load() first.\<close>
  and leaves the state as it is (no request, no change of the loader). While it is true,
  the name goes unchanged to the \<open>importLibrary\<close> of \<open>google.maps\<close>, whose
  outcome is returned as it is; nothing is cached, for a second call with the same name
  goes to the API again.
\<close>

theorem importLibrary_delegates:
  "(\<not> isLoaded s \<longrightarrow>
      importLibrary libraryName s = (Inl (Error
        ''Google Maps API must be loaded before importing libraries. Call load() first.''), s)) \<and>
   (isLoaded s \<longrightarrow>
      (\<exists>g m. window_google s = Some g \<and> maps g = Some m \<and>
         importLibrary libraryName s =
           (maps_importLibrary m libraryName, s\<lparr>import_log := import_log s @ [libraryName]\<rparr>) \<and>
         importLibrary libraryName (snd (importLibrary libraryName s)) =
           (maps_importLibrary m libraryName,
            s\<lparr>import_log := import_log s @ [libraryName, libraryName]\<rparr>)))"
  by (auto simp: importLibrary_def isLoaded_def split: option.splits)

theorem importLibrary_delegates_witness:
  "\<not> isLoaded (snd (load ''KEY'' None initial)) \<and>
   importLibrary ''places'' (snd (load ''KEY'' None initial)) =
     (Inl (Error ''Google Maps API must be loaded before importing libraries. Call load() first.''),
      snd (load ''KEY'' None initial)) \<and>
   isLoaded (script_loaded \<lparr>maps = Some \<lparr>maps_importLibrary = (\<lambda>n. Inr (length n))\<rparr>\<rparr>
      (snd (load ''KEY'' None initial))) \<and>
   fst (importLibrary ''places''
      (script_loaded \<lparr>maps = Some \<lparr>maps_importLibrary = (\<lambda>n. Inr (length n))\<rparr>\<rparr>
        (snd (load ''KEY'' None initial)))) = Inr 6"
proof -
  let ?g = "\<lparr>maps = Some \<lparr>maps_importLibrary = (\<lambda>n. Inr (length n))\<rparr>\<rparr>"
  let ?l = "script_loaded ?g (snd (load ''KEY'' None initial))"
  let ?s = "snd (load ''KEY'' None initial)"
  have h2: "isLoaded ?l" "window_google ?l = Some ?g"
    by (simp_all add: loaded_after_callback isLoaded_def)
  have h1: "\<not> isLoaded ?s"
    by (simp add: load_initial isLoaded_def)
  from importLibrary_delegates [of ?s "''places''"] importLibrary_delegates [of ?l "''places''"]
    h1 h2
  show ?thesis by auto
qed

text \<open>
  Claim C7. After \<open>dispose\<close>, \<open>scriptElement\<close> and
  \<open>loadingPromise\<close> are absent, and so are \<open>window.google\<close> and the
  global callback; the remembered script element, if there was one, has been taken out of
  the document (the other script elements stay where they are) and is no longer in it;
  \<open>isLoaded\<close> is false. Promises and element objects are not touched. \<open>dispose\<close> is
  idempotent: a second call changes nothing, and on a page where nothing was ever loaded
  the first call changes nothing either.
\<close>

theorem dispose_cleans_up:
  "scriptElement (dispose s) = None \<and> loadingPromise (dispose s) = None \<and>
   window_google (dispose s) = None \<and> window_callback (dispose s) = None \<and>
   head_children (dispose s) =
     (case scriptElement s of
        None \<Rightarrow> head_children s
      | Some e \<Rightarrow> map_option (removeAll e) (head_children s)) \<and>
   body_scripts (dispose s) =
     (case scriptElement s of
        None \<Rightarrow> body_scripts s
      | Some e \<Rightarrow> removeAll e (body_scripts s)) \<and>
   (\<forall>e. scriptElement s = Some e \<longrightarrow> \<not> document_contains (dispose s) e) \<and>
   \<not> isLoaded (dispose s) \<and>
   promises (dispose s) = promises s \<and> elements (dispose s) = elements s \<and>
   dispose (dispose s) = dispose s \<and>
   dispose initial = initial"
proof -
  have a: "\<forall>e. scriptElement s = Some e \<longrightarrow> \<not> document_contains (dispose s) e"
    by (auto simp: document_contains_def connected_scripts_def dispose_fields
        split: option.splits)
  have b: "\<not> isLoaded (dispose s)"
    by (simp add: isLoaded_def dispose_fields)
  have c: "dispose (dispose s) = dispose s"
    by (rule world.equality) (simp_all add: dispose_fields)
  have d: "dispose initial = initial"
    by (rule world.equality) (simp_all add: dispose_fields, simp_all add: initial_def)
  show ?thesis using a b c d by (simp add: dispose_fields)
qed

theorem dispose_cleans_up_witness:
  "scriptElement (snd (load ''KEY'' None initial)) = Some 0 \<and>
   document_contains (snd (load ''KEY'' None initial)) 0 \<and>
   \<not> document_contains (dispose (snd (load ''KEY'' None initial))) 0 \<and>
   head_children (dispose (snd (load ''KEY'' None initial))) = Some [] \<and>
   \<not> isLoaded (dispose (snd (load ''KEY'' None initial))) \<and>
   dispose (dispose (snd (load ''KEY'' None initial))) = dispose (snd (load ''KEY'' None initial))"
proof -
  let ?s = "snd (load ''KEY'' None initial)"
  have h: "scriptElement ?s = Some 0" "document_contains ?s 0" "head_children ?s = Some [0]"
    by (simp_all add: load_initial document_contains_def connected_scripts_def)
  from dispose_cleans_up [of ?s] h show ?thesis by simp
qed




text \<open>
  Claim C10. An error event changes neither \<open>scriptElement\<close> nor any script
  element nor the script elements in the document, whatever the state. Where the element's handler
  belongs to a pending promise, the event changes exactly three things: the callback slot
  (deleted), \<open>loadingPromise\<close> (absent) and that promise (rejected). So the
  failed script stays attached and remembered, and a retry by \<open>load\<close> appends a
  second script element after it, leaving the first in the head, and remembers the new
  one.
\<close>

theorem script_error_leaves_script:
  "scriptElement (script_error e s) = scriptElement s \<and>
   elements (script_error e s) = elements s \<and>
   head_children (script_error e s) = head_children s \<and>
   body_scripts (script_error e s) = body_scripts s \<and>
   window_google (script_error e s) = window_google s \<and>
   (e < length (elements s) \<and> onerror (elements s ! e) = Some (RejectLoad p) \<and>
    p < length (promises s) \<and> promises s ! p = Pending \<longrightarrow>
      script_error e s = s\<lparr>window_callback := None, loadingPromise := None,
        promises := (promises s)[p := Rejected (Error ''Failed to load Google Maps script'')]\<rparr>) \<and>
   (e < length (elements s) \<and> onerror (elements s ! e) = Some (RejectLoad p) \<and>
    \<not> isLoaded s \<and> scriptElement s = Some e \<and> head_children s = Some cs \<and> e \<in> set cs \<and>
    load apiKey options (script_error e s) = (q, s'') \<longrightarrow>
      head_children s'' = Some (cs @ [length (elements s)]) \<and>
      length (elements s) \<noteq> e \<and>
      document_contains s'' e \<and> document_contains s'' (length (elements s)) \<and>
      elements s'' ! e = elements s ! e \<and>
      scriptElement s'' = Some (length (elements s)))"
proof (intro conjI impI)
  assume a: "e < length (elements s) \<and> onerror (elements s ! e) = Some (RejectLoad p) \<and>
    p < length (promises s) \<and> promises s ! p = Pending"
  then show "script_error e s = s\<lparr>window_callback := None, loadingPromise := None,
        promises := (promises s)[p := Rejected (Error ''Failed to load Google Maps script'')]\<rparr>"
    by (simp add: script_error_handler settle_pending)
next
  assume a: "e < length (elements s) \<and> onerror (elements s ! e) = Some (RejectLoad p) \<and>
    \<not> isLoaded s \<and> scriptElement s = Some e \<and> head_children s = Some cs \<and> e \<in> set cs \<and>
    load apiKey options (script_error e s) = (q, s'')"
  let ?t = "script_error e s"
  have nl: "\<not> isLoaded ?t" using a by (simp add: isLoaded_def script_error_frame)
  have lp: "loadingPromise ?t = None"
    using a by (simp add: script_error_handler settle_frame)
  have hc: "head_children ?t = Some cs" using a by (simp add: script_error_frame)
  from load_fresh[OF nl lp hc, of apiKey options] a
  have s'': "head_children s'' = Some (cs @ [length (elements s)])"
    "scriptElement s'' = Some (length (elements s))"
    "elements s'' ! e = elements s ! e"
    by (auto simp: script_error_frame nth_append)
  then show "head_children s'' = Some (cs @ [length (elements s)])"
    "scriptElement s'' = Some (length (elements s))"
    "elements s'' ! e = elements s ! e"
    by simp_all
  show "length (elements s) \<noteq> e" using a by simp
  show "document_contains s'' e" "document_contains s'' (length (elements s))"
    using s'' a by (simp_all add: document_contains_def connected_scripts_def)
qed (simp_all add: script_error_frame)

theorem script_error_leaves_script_witness:
  "scriptElement (script_error 0 (snd (load ''KEY'' None initial)))
     = scriptElement (snd (load ''KEY'' None initial)) \<and>
   scriptElement (snd (load ''KEY'' None initial)) = Some 0 \<and>
   head_children (snd (load ''KEY'' None initial)) = Some [0] \<and>
   head_children (script_error 0 (snd (load ''KEY'' None initial))) = Some [0] \<and>
   head_children (snd (load ''KEY'' None (script_error 0 (snd (load ''KEY'' None initial)))))
     = Some [0, 1] \<and>
   scriptElement (snd (load ''KEY'' None (script_error 0 (snd (load ''KEY'' None initial)))))
     = Some 1"
proof -
  let ?s = "snd (load ''KEY'' None initial)"
  have h: "0 < length (elements ?s)" "onerror (elements ?s ! 0) = Some (RejectLoad 0)"
    "\<not> isLoaded ?s" "scriptElement ?s = Some 0" "head_children ?s = Some [0]"
    "length (elements ?s) = 1"
    by (simp_all add: load_initial isLoaded_def)
  have l: "load ''KEY'' None (script_error 0 ?s) = (1, snd (load ''KEY'' None (script_error 0 ?s)))"
    by (simp add: retry_after_error)
  from script_error_leaves_script [of 0 ?s 0 "[0]" "''KEY''" None 1
      "snd (load ''KEY'' None (script_error 0 ?s))"] h l
  show ?thesis by simp
qed

end
